theory Spec2Isabelle
  imports Main
begin

section \<open>Documents and collections\<close>

text \<open>
  The three Mongoose models (\<^verbatim>\<open>./models/book\<close>, \<^verbatim>\<open>./models/author\<close>,
  \<^verbatim>\<open>./models/user\<close>) are required by \<^verbatim>\<open>index.js\<close>. The fields below are the ones
  the resolvers of \<^verbatim>\<open>index.js\<close> read and write. An ObjectId is an abstract
  identifier. A collection is the list of its documents in insertion order, which is the
  order in which an unsorted \<^verbatim>\<open>find\<close> returns them.
\<close>

type_synonym objectId = nat

record author =
  author_id :: objectId
  author_name :: string
  author_born :: "int option"
  author_books :: "objectId list"

record book =
  book_id :: objectId
  book_title :: string
  book_published :: int
  book_genres :: "string list"
  book_author :: objectId

record user =
  user_id :: objectId
  user_username :: string
  user_favoriteGenre :: string

record db =
  Book_docs :: "book list"
  Author_docs :: "author list"
  User_docs :: "user list"

text \<open>A Book after \<^verbatim>\<open>populate("author")\<close>: the document together with the Author
  document its reference resolves to (\<open>None\<close> is JavaScript's \<^verbatim>\<open>null\<close>).\<close>

record book_populated =
  doc :: book
  author_doc :: "author option"

section \<open>Arguments, errors, request context\<close>

record allBooks_args =
  author_arg :: "string option"
  genre_arg :: "string option"

record addBook_args =
  title :: string
  author :: string
  published :: int
  genres :: "string list"

record editAuthor_args =
  name :: string
  setBornTo :: int

record login_args =
  username :: string
  password :: string

datatype invalidArgs = AddBookArgs addBook_args | EditAuthorArgs editAuthor_args

text \<open>The errors a resolver can throw. \<open>UserInputError m None\<close> is
  \<^verbatim>\<open>new UserInputError(m)\<close>; \<open>UserInputError m (Some a)\<close> is
  \<^verbatim>\<open>new UserInputError(m, { invalidArgs: a })\<close>.\<close>

datatype error =
  AuthenticationError string
  | UserInputError string "invalidArgs option"
  | TypeError string
  | JsonWebTokenError string

record request_context =
  currentUser :: "user option"

record request =
  authorization :: "string option"

record token =
  "value" :: string

record userForToken =
  tok_username :: string
  tok_id :: objectId

text \<open>A value a resolver can hand back to the GraphQL runtime for a scalar field.\<close>

datatype js_value = JSNumber int | JSFunction string

section \<open>What index.js takes from outside\<close>

text \<open>
  The validation rules of the schemas (\<^verbatim>\<open>validateSync\<close>), the reasons for which a
  \<^verbatim>\<open>save\<close> is rejected beyond a clash of \<^verbatim>\<open>_id\<close> (validators run on save, unique
  indexes), the signing secret of \<^verbatim>\<open>./utils/config\<close> and the two functions of
  \<^verbatim>\<open>jsonwebtoken\<close> are parameters of the model: every theorem holds for all of them.
  \<open>jwt_verify\<close> returns \<open>Inl m\<close> where \<^verbatim>\<open>jwt.verify\<close> throws an error with
  message \<open>m\<close>. The database itself always answers: a lost connection is outside the model.
\<close>

record deps =
  Book_validateSync :: "book \<Rightarrow> string option"
  Author_validateSync :: "author \<Rightarrow> string option"
  Book_save_error :: "db \<Rightarrow> book \<Rightarrow> string option"
  Author_save_error :: "db \<Rightarrow> author \<Rightarrow> string option"
  JWT_SECRET :: string
  jwt_sign :: "userForToken \<Rightarrow> string \<Rightarrow> string"
  jwt_verify :: "string \<Rightarrow> string \<Rightarrow> string + userForToken"

text \<open>The ObjectIds that \<^verbatim>\<open>new Book(...)\<close> and \<^verbatim>\<open>new Author(...)\<close> draw during one
  call of \<^verbatim>\<open>addBook\<close>. Nothing is assumed about them: an identifier already in use makes
  the insert fail, as it does in the database.\<close>

record oids =
  new_book_oid :: objectId
  new_author_oid :: objectId

section \<open>The server state\<close>

text \<open>
  \<open>store\<close> is the database. \<open>subscribers\<close> and \<open>iterators\<close> are the module-level
  \<^verbatim>\<open>pubsub\<close> and the iterators made from it. \<open>subscribers\<close> has one entry for each
  listener registered with the pubsub for \<^verbatim>\<open>"BOOK_ADDED"\<close>, in the order of
  registration, holding the payloads pushed to it so far, oldest first. \<open>iterators\<close> has
  one entry for each iterator handed out by \<^verbatim>\<open>pubsub.asyncIterator(["BOOK_ADDED"])\<close>:
  \<open>None\<close> as long as the iterator has not been read, then the position of its listener
  among the subscribers. \<open>console\<close> is what \<^verbatim>\<open>console.log\<close> has printed inside
  \<^verbatim>\<open>addBook\<close> (\<open>None\<close> is \<^verbatim>\<open>undefined\<close>).
\<close>

record server =
  store :: db
  subscribers :: "book_populated list list"
  iterators :: "nat option list"
  console :: "string option list"

section \<open>Model queries\<close>

definition Author_findOne :: "db \<Rightarrow> string \<Rightarrow> author option" where
  "Author_findOne s n = find (\<lambda>a. author_name a = n) (Author_docs s)"

definition Author_findById :: "db \<Rightarrow> objectId \<Rightarrow> author option" where
  "Author_findById s i = find (\<lambda>a. author_id a = i) (Author_docs s)"

definition User_findOne :: "db \<Rightarrow> string \<Rightarrow> user option" where
  "User_findOne s n = find (\<lambda>u. user_username u = n) (User_docs s)"

definition User_findById :: "db \<Rightarrow> objectId \<Rightarrow> user option" where
  "User_findById s i = find (\<lambda>u. user_id u = i) (User_docs s)"

text \<open>\<^verbatim>\<open>Book.find(filters)\<close>, where \<^verbatim>\<open>filters\<close> has an \<^verbatim>\<open>author\<close> key, a
  \<^verbatim>\<open>genres: { $in: g }\<close> key, both or neither. Mongoose casts the string under
  \<^verbatim>\<open>$in\<close> to a one-element array, so the key selects the Books whose genre list
  contains \<open>g\<close>.\<close>

definition Book_find :: "db \<Rightarrow> objectId option \<Rightarrow> string option \<Rightarrow> book list" where
  "Book_find s fa fg =
     filter (\<lambda>b. (case fa of None \<Rightarrow> True | Some i \<Rightarrow> book_author b = i) \<and>
                 (case fg of None \<Rightarrow> True | Some g \<Rightarrow> g \<in> set (book_genres b)))
       (Book_docs s)"

definition populate :: "db \<Rightarrow> book \<Rightarrow> book_populated" where
  "populate s b = \<lparr>doc = b, author_doc = Author_findById s (book_author b)\<rparr>"

section \<open>Saving documents\<close>

text \<open>\<^verbatim>\<open>save()\<close> of a document made with \<^verbatim>\<open>new\<close>: an insert, refused when the
  \<^verbatim>\<open>_id\<close> is taken.\<close>

definition Book_save :: "deps \<Rightarrow> db \<Rightarrow> book \<Rightarrow> string + db" where
  "Book_save D s b =
     (case Book_save_error D s b of
        Some m \<Rightarrow> Inl m
      | None \<Rightarrow>
          if book_id b \<in> set (map book_id (Book_docs s))
          then Inl ''E11000 duplicate key error''
          else Inr (s\<lparr>Book_docs := Book_docs s @ [b]\<rparr>))"

text \<open>\<^verbatim>\<open>updateOne({ _id: i }, { $set: ... })\<close>: the first document with that
  \<^verbatim>\<open>_id\<close> gets the modified paths, here as the function \<open>f\<close>.\<close>

fun updateOne :: "objectId \<Rightarrow> (author \<Rightarrow> author) \<Rightarrow> author list \<Rightarrow> author list" where
  "updateOne i f [] = []"
| "updateOne i f (a # as) = (if author_id a = i then f a # as else a # updateOne i f as)"

text \<open>\<^verbatim>\<open>save()\<close> of an Author. \<open>isNew\<close> tells a document made with \<^verbatim>\<open>new\<close>
  (inserted) from one that \<^verbatim>\<open>findOne\<close> returned (its modified paths \<open>f\<close> are
  written to the stored document).\<close>

definition Author_save :: "deps \<Rightarrow> db \<Rightarrow> author \<Rightarrow> bool \<Rightarrow> (author \<Rightarrow> author) \<Rightarrow> string + db" where
  "Author_save D s a isNew f =
     (case Author_save_error D s a of
        Some m \<Rightarrow> Inl m
      | None \<Rightarrow>
          if isNew then
            (if author_id a \<in> set (map author_id (Author_docs s))
             then Inl ''E11000 duplicate key error''
             else Inr (s\<lparr>Author_docs := Author_docs s @ [a]\<rparr>))
          else
            (if author_id a \<in> set (map author_id (Author_docs s))
             then Inr (s\<lparr>Author_docs := updateOne (author_id a) f (Author_docs s)\<rparr>)
             else Inl ''No document found for query''))"

section \<open>Query resolvers\<close>

text \<open>\<^verbatim>\<open>bookCount: async () => Book.collection.countDocuments\<close> and its sibling for
  Authors: the resolver returns the method itself; it does not call it.\<close>

definition Query_bookCount :: "db \<Rightarrow> js_value" where
  "Query_bookCount s = JSFunction ''Book.collection.countDocuments''"

definition Query_authorCount :: "db \<Rightarrow> js_value" where
  "Query_authorCount s = JSFunction ''Author.collection.countDocuments''"

text \<open>The runtime's serialisation of a field declared \<^verbatim>\<open>Int!\<close>: a number passes, a
  function is refused.\<close>

definition serialize_Int :: "js_value \<Rightarrow> error + int" where
  "serialize_Int v =
     (case v of
        JSNumber n \<Rightarrow> Inr n
      | JSFunction f \<Rightarrow> Inl (TypeError ''Int cannot represent non-integer value''))"

text \<open>JavaScript's truthiness of an optional string argument: \<^verbatim>\<open>undefined\<close>,
  \<^verbatim>\<open>null\<close> and the empty string are falsy.\<close>

definition truthy :: "string option \<Rightarrow> bool" where
  "truthy a = (case a of None \<Rightarrow> False | Some x \<Rightarrow> x \<noteq> [])"

text \<open>\<^verbatim>\<open>allBooks\<close>. Reading \<^verbatim>\<open>author._id\<close> when \<^verbatim>\<open>findOne\<close> returned
  \<^verbatim>\<open>null\<close> throws a TypeError.\<close>

definition Query_allBooks :: "db \<Rightarrow> allBooks_args \<Rightarrow> error + book_populated list" where
  "Query_allBooks s args =
     (let fg = (if truthy (genre_arg args) then genre_arg args else None) in
      if truthy (author_arg args) then
        (case Author_findOne s (the (author_arg args)) of
           None \<Rightarrow> Inl (TypeError ''Cannot read property '_id' of null'')
         | Some a \<Rightarrow> Inr (map (populate s) (Book_find s (Some (author_id a)) fg)))
      else Inr (map (populate s) (Book_find s None fg)))"

definition Query_me :: "request_context \<Rightarrow> error + user" where
  "Query_me ctx =
     (case currentUser ctx of
        None \<Rightarrow> Inl (AuthenticationError ''not authenticated'')
      | Some u \<Rightarrow> Inr u)"

text \<open>The field resolver \<^verbatim>\<open>Author.bookCount\<close>.\<close>

definition Author_bookCount :: "author \<Rightarrow> nat" where
  "Author_bookCount parent = length (author_books parent)"

section \<open>Mutation resolvers\<close>

definition Mutation_login :: "deps \<Rightarrow> login_args \<Rightarrow> db \<Rightarrow> error + token" where
  "Mutation_login D args s =
     (case User_findOne s (username args) of
        None \<Rightarrow> Inl (UserInputError ''wrong credentials'' None)
      | Some u \<Rightarrow>
          if password args \<noteq> ''secred''
          then Inl (UserInputError ''wrong credentials'' None)
          else Inr \<lparr>value = jwt_sign D \<lparr>tok_username = user_username u, tok_id = user_id u\<rparr>
                                     (JWT_SECRET D)\<rparr>)"

text \<open>Lines 126 to 129 of \<^verbatim>\<open>addBook\<close>: the Author found by name, or a new one with no
  birth year and the empty book list a Mongoose array path starts with; then the new
  Book's \<^verbatim>\<open>_id\<close> appended to its list. The flag is true for the new document.\<close>

definition addBook_author :: "oids \<Rightarrow> addBook_args \<Rightarrow> db \<Rightarrow> author \<times> bool" where
  "addBook_author ids args s =
     (let found = Author_findOne s (author args);
          a = (case found of
                 Some a \<Rightarrow> a
               | None \<Rightarrow> \<lparr>author_id = new_author_oid ids, author_name = author args,
                           author_born = None, author_books = []\<rparr>)
      in (a\<lparr>author_books := author_books a @ [new_book_oid ids]\<rparr>, found = None))"

text \<open>Lines 124 and 130: \<^verbatim>\<open>new Book({ ...args })\<close> followed by
  \<^verbatim>\<open>addedBook.author = author._id\<close>. The assignment replaces whatever the constructor
  made of the author's name, and nothing reads the path in between.\<close>

definition addBook_book :: "oids \<Rightarrow> addBook_args \<Rightarrow> author \<Rightarrow> book" where
  "addBook_book ids args a =
     \<lparr>book_id = new_book_oid ids, book_title = title args, book_published = published args,
      book_genres = genres args, book_author = author_id a\<rparr>"

text \<open>\<^verbatim>\<open>errors.forEach\<close>: each entry is logged, and the first one that is an error is
  thrown, which ends the loop.\<close>

fun forEach_errors ::
  "string option list \<Rightarrow> string option list \<Rightarrow> (string + unit) \<times> string option list" where
  "forEach_errors [] out = (Inr (), out)"
| "forEach_errors (e # es) out =
     (case e of
        Some m \<Rightarrow> (Inl m, out @ [e])
      | None \<Rightarrow> forEach_errors es (out @ [e]))"

text \<open>\<^verbatim>\<open>pubsub.publish("BOOK_ADDED", { bookAdded: response })\<close>: every iterator
  registered at that moment gets the payload.\<close>

definition publish :: "book_populated \<Rightarrow> book_populated list list \<Rightarrow> book_populated list list" where
  "publish p qs = map (\<lambda>q. q @ [p]) qs"

text \<open>\<^verbatim>\<open>addBook\<close>. The result is the thrown error or the populated Book, with the
  state the server is left in: an error thrown by the second \<^verbatim>\<open>save\<close> leaves the
  Book of the first one stored.\<close>

definition Mutation_addBook ::
  "deps \<Rightarrow> oids \<Rightarrow> request_context \<Rightarrow> addBook_args \<Rightarrow> server
     \<Rightarrow> (error + book_populated) \<times> server" where
  "Mutation_addBook D ids ctx args w =
     (case currentUser ctx of
        None \<Rightarrow> (Inl (AuthenticationError ''not authenticated''), w)
      | Some cu \<Rightarrow>
          (case addBook_author ids args (store w) of
             (a, isNew) \<Rightarrow>
               (let addedBook = addBook_book ids args a;
                    errors = [Book_validateSync D addedBook, Author_validateSync D a]
                in case forEach_errors errors (console w) of
                     (Inl m, out) \<Rightarrow>
                       (Inl (UserInputError m (Some (AddBookArgs args))), w\<lparr>console := out\<rparr>)
                   | (Inr u, out) \<Rightarrow>
                       (case Book_save D (store w) addedBook of
                          Inl m \<Rightarrow>
                            (Inl (UserInputError m (Some (AddBookArgs args))),
                             w\<lparr>console := out\<rparr>)
                        | Inr s1 \<Rightarrow>
                            (case Author_save D s1 a isNew
                                    (\<lambda>d. d\<lparr>author_books := author_books a\<rparr>) of
                               Inl m \<Rightarrow>
                                 (Inl (UserInputError m (Some (AddBookArgs args))),
                                  w\<lparr>store := s1, console := out\<rparr>)
                             | Inr s2 \<Rightarrow>
                                 (let response = populate s2 addedBook
                                  in (Inr response,
                                      w\<lparr>store := s2,
                                        subscribers := publish response (subscribers w),
                                        console := out\<rparr>)))))))"

definition Mutation_editAuthor ::
  "deps \<Rightarrow> request_context \<Rightarrow> editAuthor_args \<Rightarrow> server \<Rightarrow> (error + author) \<times> server" where
  "Mutation_editAuthor D ctx args w =
     (case currentUser ctx of
        None \<Rightarrow> (Inl (AuthenticationError ''not authenticated''), w)
      | Some cu \<Rightarrow>
          (case Author_findOne (store w) (name args) of
             None \<Rightarrow> (Inl (UserInputError ''Author doesn't exist'' None), w)
           | Some a \<Rightarrow>
               (let editedAuthor = a\<lparr>author_born := Some (setBornTo args)\<rparr>
                in case Author_save D (store w) editedAuthor False
                          (\<lambda>d. d\<lparr>author_born := Some (setBornTo args)\<rparr>) of
                     Inl m \<Rightarrow> (Inl (UserInputError m (Some (EditAuthorArgs args))), w)
                   | Inr s1 \<Rightarrow> (Inr editedAuthor, w\<lparr>store := s1\<rparr>))))"

section \<open>Subscription\<close>



section \<open>The request context\<close>

text \<open>\<^verbatim>\<open>toLowerCase\<close> on the letters A to Z; no other character becomes one of the
  characters of \<^verbatim>\<open>"bearer "\<close>, which is all the result is compared with.\<close>

definition toLowerCase :: "string \<Rightarrow> string" where
  "toLowerCase s =
     map (\<lambda>c. if 65 \<le> (of_char c :: nat) \<and> (of_char c :: nat) \<le> 90
               then char_of (of_char c + (32 :: nat)) else c) s"

definition startsWith :: "string \<Rightarrow> string \<Rightarrow> bool" where
  "startsWith s p = (take (length p) s = p)"

text \<open>The body of the \<^verbatim>\<open>try\<close> block: \<^verbatim>\<open>jwt.verify\<close> may throw; \<^verbatim>\<open>findById\<close>
  returns the User or \<^verbatim>\<open>null\<close>.\<close>

definition verify_and_find :: "deps \<Rightarrow> db \<Rightarrow> string \<Rightarrow> error + user option" where
  "verify_and_find D s auth =
     (case jwt_verify D (drop 7 auth) (JWT_SECRET D) of
        Inl m \<Rightarrow> Inl (JsonWebTokenError m)
      | Inr decodedToken \<Rightarrow> Inr (User_findById s (tok_id decodedToken)))"

text \<open>The \<^verbatim>\<open>context\<close> function of the server. \<open>None\<close> as the request is the absent
  \<^verbatim>\<open>req\<close> of a subscription connection; \<open>None\<close> as the result is
  \<^verbatim>\<open>undefined\<close>, which the function returns when the header is not a bearer header.\<close>

definition context_fn :: "deps \<Rightarrow> db \<Rightarrow> request option \<Rightarrow> request_context option" where
  "context_fn D s req =
     (let auth = (case req of None \<Rightarrow> None | Some r \<Rightarrow> authorization r) in
      if truthy auth \<and> startsWith (toLowerCase (the auth)) ''bearer '' then
        Some \<lparr>currentUser =
                (case verify_and_find D s (the auth) of
                   Inl e \<Rightarrow> None
                 | Inr cu \<Rightarrow> cu)\<rparr>
      else None)"

text \<open>Apollo Server passes \<^verbatim>\<open>context || {}\<close> to the resolvers: on the empty object
  \<^verbatim>\<open>context.currentUser\<close> is \<^verbatim>\<open>undefined\<close>.\<close>

definition resolver_context :: "request_context option \<Rightarrow> request_context" where
  "resolver_context c = (case c of None \<Rightarrow> \<lparr>currentUser = None\<rparr> | Some x \<Rightarrow> x)"

section \<open>Well-formed stores\<close>

text \<open>The database keeps \<^verbatim>\<open>_id\<close> unique within a collection.\<close>

definition unique_ids :: "db \<Rightarrow> bool" where
  "unique_ids s =
     (distinct (map author_id (Author_docs s)) \<and> distinct (map book_id (Book_docs s)))"

section \<open>Runs of the server\<close>







section \<open>A sample instance\<close>

text \<open>Concrete values on which the model is evaluated: schemas that want a title of two
  characters and a name of four, a unique index on titles, a one-entry table for the token
  functions, and a store with one Book, its Author and one User.\<close>

definition example_deps :: deps where
  "example_deps =
     \<lparr>Book_validateSync = (\<lambda>b. if length (book_title b) < 2 then Some ''title is too short'' else None),
      Author_validateSync = (\<lambda>a. if length (author_name a) < 4 then Some ''name is too short'' else None),
      Book_save_error = (\<lambda>s b. if book_title b \<in> set (map book_title (Book_docs s))
                                then Some ''title must be unique'' else None),
      Author_save_error = (\<lambda>s a. None),
      JWT_SECRET = ''key'',
      jwt_sign = (\<lambda>p k. k @ ''.'' @ tok_username p),
      jwt_verify = (\<lambda>t k. if t = ''key.test'' \<and> k = ''key''
                            then Inr \<lparr>tok_username = ''test'', tok_id = 7\<rparr>
                            else Inl ''invalid signature'')\<rparr>"

definition example_author :: author where
  "example_author = \<lparr>author_id = 1, author_name = ''Martin Fowler'', author_born = Some 1963,
                      author_books = [10]\<rparr>"

definition example_book :: book where
  "example_book = \<lparr>book_id = 10, book_title = ''Refactoring'', book_published = 1999,
                    book_genres = [''refactoring''], book_author = 1\<rparr>"

definition example_user :: user where
  "example_user = \<lparr>user_id = 7, user_username = ''test'', user_favoriteGenre = ''refactoring''\<rparr>"

definition example_db :: db where
  "example_db = \<lparr>Book_docs = [example_book], Author_docs = [example_author],
                  User_docs = [example_user]\<rparr>"

definition example_server :: server where
  "example_server =
     \<lparr>store = example_db, subscribers = [[]], iterators = [Some 0], console = []\<rparr>"

definition example_args :: addBook_args where
  "example_args = \<lparr>title = ''Refactoring to patterns'', author = ''Joshua Kerievsky'',
                    published = 2008, genres = [''refactoring'', ''patterns'']\<rparr>"

definition example_oids :: oids where
  "example_oids = \<lparr>new_book_oid = 11, new_author_oid = 2\<rparr>"











section \<open>Lookups\<close>

lemma find_None_all: "find P xs = None \<longleftrightarrow> (\<forall>x\<in>set xs. \<not> P x)"
  by (induction xs) auto

lemma find_append_cases:
  "find P (xs @ ys) = (case find P xs of None \<Rightarrow> find P ys | Some x \<Rightarrow> Some x)"
  by (induction xs) auto


lemma find_name_updateOne:
  assumes "find (\<lambda>x. author_name x = n) xs = Some a"
    and "distinct (map author_id xs)"
    and "\<And>x. author_name (f x) = author_name x"
  shows "find (\<lambda>x. author_name x = n) (updateOne (author_id a) f xs) = Some (f a)"
  using assms(1,2)
proof (induction xs)
  case Nil
  then show ?case by simp
next
  case (Cons x xs)
  show ?case
  proof (cases "author_name x = n")
    case True
    with Cons.prems have "a = x" by simp
    with True assms(3) show ?thesis by simp
  next
    case False
    with Cons.prems have f: "find (\<lambda>x. author_name x = n) xs = Some a" by simp
    then have "a \<in> set xs" by (auto simp: find_Some_iff)
    with Cons.prems(2) have "author_id x \<noteq> author_id a" by auto
    with False f Cons.prems(2) Cons.IH show ?thesis by simp
  qed
qed

lemma find_id_updateOne:
  assumes "a \<in> set xs"
    and "distinct (map author_id xs)"
    and "\<And>x. author_id (f x) = author_id x"
  shows "find (\<lambda>x. author_id x = author_id a) (updateOne (author_id a) f xs) = Some (f a)"
  using assms(1,2)
proof (induction xs)
  case Nil
  then show ?case by simp
next
  case (Cons x xs)
  show ?case
  proof (cases "x = a")
    case True
    with assms(3) show ?thesis by simp
  next
    case False
    with Cons.prems have "a \<in> set xs" by simp
    moreover from this Cons.prems(2) have "author_id x \<noteq> author_id a" by auto
    ultimately show ?thesis using Cons.prems(2) Cons.IH by simp
  qed
qed

lemma find_Some_mem: "find P xs = Some x \<Longrightarrow> x \<in> set xs \<and> P x"
  by (induction xs) (auto split: if_splits)

section \<open>Counts\<close>

text \<open>
  Claim C1. \<^verbatim>\<open>bookCount\<close> and \<^verbatim>\<open>authorCount\<close> are declared \<^verbatim>\<open>Int!\<close> and are
  meant to return the number of stored Books and Authors. On the sample store, which
  holds one Book and one Author, each resolver returns the method
  \<^verbatim>\<open>countDocuments\<close> itself and not the number 1, and the serialisation of the field
  as an integer refuses that value.
\<close>

theorem bookCount_returns_function:
  "Query_bookCount example_db = JSFunction ''Book.collection.countDocuments'' \<and>
   Query_bookCount example_db \<noteq> JSNumber (int (length (Book_docs example_db))) \<and>
   serialize_Int (Query_bookCount example_db) =
     Inl (TypeError ''Int cannot represent non-integer value'') \<and>
   Query_authorCount example_db = JSFunction ''Author.collection.countDocuments'' \<and>
   Query_authorCount example_db \<noteq> JSNumber (int (length (Author_docs example_db))) \<and>
   serialize_Int (Query_authorCount example_db) =
     Inl (TypeError ''Int cannot represent non-integer value'')"
  by (simp add: Query_bookCount_def Query_authorCount_def serialize_Int_def)

section \<open>Failing calls change nothing\<close>

text \<open>
  Claim C2. A call of \<^verbatim>\<open>addBook\<close> whose context has no current user fails with the
  authentication error and leaves the whole server state as it was: no Book and no Author
  is created or modified, and nothing is published.
\<close>

theorem addBook_unauthenticated:
  "currentUser ctx = None \<Longrightarrow>
     Mutation_addBook D ids ctx args w = (Inl (AuthenticationError ''not authenticated''), w)"
  by (simp add: Mutation_addBook_def)

theorem addBook_unauthenticated_witness:
  "currentUser \<lparr>currentUser = None\<rparr> = None \<and>
   Mutation_addBook example_deps example_oids \<lparr>currentUser = None\<rparr> example_args example_server
     = (Inl (AuthenticationError ''not authenticated''), example_server)"
  using addBook_unauthenticated [of "\<lparr>currentUser = None\<rparr>" example_deps example_oids example_args example_server]
  by simp

text \<open>
  Claim C3. In an authenticated call of \<^verbatim>\<open>addBook\<close>, let \<open>vb\<close> and \<open>va\<close> be the
  results of \<^verbatim>\<open>validateSync\<close> on the new Book and on the Author with the Book's
  identifier appended, both taken before anything is saved. If one of them is an error,
  the call throws a \<^verbatim>\<open>UserInputError\<close> with the message of the first error of the
  two and the arguments as \<^verbatim>\<open>invalidArgs\<close>, and the state differs from the one before
  only by what was logged: the database and the subscribers are untouched.
\<close>

theorem addBook_validation:
  assumes "currentUser ctx = Some cu"
    and "addBook_author ids args (store w) = (a, isNew)"
    and "Book_validateSync D (addBook_book ids args a) = vb"
    and "Author_validateSync D a = va"
    and "vb \<noteq> None \<or> va \<noteq> None"
  shows "Mutation_addBook D ids ctx args w =
           (Inl (UserInputError (case vb of Some m \<Rightarrow> m | None \<Rightarrow> the va) (Some (AddBookArgs args))),
            w\<lparr>console := console w @ (case vb of Some m \<Rightarrow> [vb] | None \<Rightarrow> [None, va])\<rparr>)"
  using assms by (auto simp: Mutation_addBook_def split: option.splits)

theorem addBook_validation_witness:
  "Mutation_addBook example_deps example_oids \<lparr>currentUser = Some example_user\<rparr>
     (example_args\<lparr>title := ''R''\<rparr>) example_server =
     (Inl (UserInputError ''title is too short'' (Some (AddBookArgs (example_args\<lparr>title := ''R''\<rparr>)))),
      example_server\<lparr>console := [Some ''title is too short'']\<rparr>) \<and>
   Mutation_addBook example_deps example_oids \<lparr>currentUser = Some example_user\<rparr>
     (example_args\<lparr>author := ''Bob''\<rparr>) example_server =
     (Inl (UserInputError ''name is too short'' (Some (AddBookArgs (example_args\<lparr>author := ''Bob''\<rparr>)))),
      example_server\<lparr>console := [None, Some ''name is too short'']\<rparr>)"
  using addBook_validation [of "\<lparr>currentUser = Some example_user\<rparr>" example_user example_oids
      "example_args\<lparr>title := ''R''\<rparr>" example_server
      "\<lparr>author_id = 2, author_name = ''Joshua Kerievsky'', author_born = None, author_books = [11]\<rparr>"
      True example_deps "Some ''title is too short''" None]
    addBook_validation [of "\<lparr>currentUser = Some example_user\<rparr>" example_user example_oids
      "example_args\<lparr>author := ''Bob''\<rparr>" example_server
      "\<lparr>author_id = 2, author_name = ''Bob'', author_born = None, author_books = [11]\<rparr>"
      True example_deps None "Some ''name is too short''"]
  by (simp add: addBook_author_def addBook_book_def Author_findOne_def example_server_def
      example_db_def example_author_def example_args_def example_oids_def example_deps_def)

text \<open>
  Claim C6. An authenticated call of \<^verbatim>\<open>editAuthor\<close> with a name that no stored Author
  has fails with the \<^verbatim>\<open>UserInputError\<close> "Author doesn't exist" and leaves the whole
  server state as it was.
\<close>

theorem editAuthor_unknown:
  assumes "currentUser ctx = Some cu"
    and "\<forall>a\<in>set (Author_docs (store w)). author_name a \<noteq> name args"
  shows "Mutation_editAuthor D ctx args w = (Inl (UserInputError ''Author doesn't exist'' None), w)"
proof -
  have "Author_findOne (store w) (name args) = None"
    using assms(2) by (simp add: Author_findOne_def find_None_all)
  then show ?thesis using assms(1) by (simp add: Mutation_editAuthor_def)
qed

theorem editAuthor_unknown_witness:
  "Mutation_editAuthor example_deps \<lparr>currentUser = Some example_user\<rparr>
     \<lparr>name = ''Martin'', setBornTo = 1964\<rparr> example_server =
     (Inl (UserInputError ''Author doesn't exist'' None), example_server)"
  using editAuthor_unknown [of "\<lparr>currentUser = Some example_user\<rparr>" example_user example_server
      "\<lparr>name = ''Martin'', setBornTo = 1964\<rparr>" example_deps]
  by (simp add: example_server_def example_db_def example_author_def)

section \<open>Filters of allBooks\<close>




text \<open>
  Claim C10, as stated, fails for the empty author string: no Author of the sample store
  has the empty name, yet \<^verbatim>\<open>if (args.author)\<close> is false for it, no lookup is made, and
  the query returns the unfiltered list.
\<close>

theorem allBooks_empty_author_counterexample:
  "Query_allBooks example_db \<lparr>author_arg = Some '''', genre_arg = None\<rparr> =
     Inr [\<lparr>doc = example_book, author_doc = Some example_author\<rparr>] \<and>
   Author_findOne example_db '''' = None"
  by (simp add: Query_allBooks_def truthy_def Book_find_def populate_def Author_findById_def
      Author_findOne_def example_db_def example_book_def example_author_def)

text \<open>
  Claim C10, amended. For every call of \<^verbatim>\<open>allBooks\<close> whose author argument is a
  non-empty string that no stored Author has as its name, whatever the genre argument,
  the resolver reads \<^verbatim>\<open>_id\<close> of \<^verbatim>\<open>null\<close> and the query fails with a TypeError.
\<close>

theorem allBooks_unknown_author:
  assumes "a \<noteq> []"
    and "\<forall>x\<in>set (Author_docs s). author_name x \<noteq> a"
  shows "Query_allBooks s \<lparr>author_arg = Some a, genre_arg = g\<rparr> =
           Inl (TypeError ''Cannot read property '_id' of null'')"
proof -
  have "Author_findOne s a = None"
    using assms(2) by (simp add: Author_findOne_def find_None_all)
  then show ?thesis using assms(1) by (simp add: Query_allBooks_def truthy_def)
qed

theorem allBooks_unknown_author_witness:
  "Query_allBooks example_db \<lparr>author_arg = Some ''Nobody'', genre_arg = None\<rparr> =
     Inl (TypeError ''Cannot read property '_id' of null'')"
  using allBooks_unknown_author [of "''Nobody''" example_db None]
  by (simp add: example_db_def example_author_def)

section \<open>Login\<close>

text \<open>
  Claim C5. \<^verbatim>\<open>findOne\<close> finds no User exactly when no stored User has the username.
  If it finds none, or the password is not the literal \<^verbatim>\<open>"secred"\<close>, \<^verbatim>\<open>login\<close> fails
  with the \<^verbatim>\<open>UserInputError\<close> "wrong credentials" and returns no token. Otherwise it
  returns the token that \<^verbatim>\<open>jwt.sign\<close> makes, under the configured secret, of the
  username and the identifier of the User found.
\<close>

theorem login_spec:
  "(User_findOne s (username args) = None \<longleftrightarrow>
      (\<forall>u\<in>set (User_docs s). user_username u \<noteq> username args)) \<and>
   (User_findOne s (username args) = None \<or> password args \<noteq> ''secred'' \<longrightarrow>
      Mutation_login D args s = Inl (UserInputError ''wrong credentials'' None)) \<and>
   (User_findOne s (username args) = Some u \<and> password args = ''secred'' \<longrightarrow>
      u \<in> set (User_docs s) \<and> user_username u = username args \<and>
      Mutation_login D args s =
        Inr \<lparr>value = jwt_sign D \<lparr>tok_username = username args, tok_id = user_id u\<rparr>
                                (JWT_SECRET D)\<rparr>)"
proof -
  have a: "User_findOne s (username args) = Some u \<Longrightarrow>
          u \<in> set (User_docs s) \<and> user_username u = username args"
    unfolding User_findOne_def by (auto simp: find_Some_iff)
  have b: "User_findOne s (username args) = None \<longleftrightarrow>
      (\<forall>u\<in>set (User_docs s). user_username u \<noteq> username args)"
    by (simp add: User_findOne_def find_None_all)
  have c: "User_findOne s (username args) = None \<or> password args \<noteq> ''secred'' \<longrightarrow>
      Mutation_login D args s = Inl (UserInputError ''wrong credentials'' None)"
    by (simp add: Mutation_login_def split: option.splits)
  have d: "User_findOne s (username args) = Some u \<and> password args = ''secred'' \<longrightarrow>
      Mutation_login D args s =
        Inr \<lparr>value = jwt_sign D \<lparr>tok_username = username args, tok_id = user_id u\<rparr>
                                (JWT_SECRET D)\<rparr>"
    using a by (simp add: Mutation_login_def split: option.splits)
  from a b c d show ?thesis by blast
qed

theorem login_spec_witness:
  "Mutation_login example_deps \<lparr>username = ''test'', password = ''secred''\<rparr> example_db =
     Inr \<lparr>value = ''key.test''\<rparr> \<and>
   Mutation_login example_deps \<lparr>username = ''test'', password = ''secret''\<rparr> example_db =
     Inl (UserInputError ''wrong credentials'' None) \<and>
   Mutation_login example_deps \<lparr>username = ''nobody'', password = ''secred''\<rparr> example_db =
     Inl (UserInputError ''wrong credentials'' None)"
  using login_spec [of example_db "\<lparr>username = ''test'', password = ''secred''\<rparr>" example_deps example_user]
    login_spec [of example_db "\<lparr>username = ''test'', password = ''secret''\<rparr>" example_deps example_user]
    login_spec [of example_db "\<lparr>username = ''nobody'', password = ''secred''\<rparr>" example_deps example_user]
  by (simp add: User_findOne_def example_db_def example_user_def example_deps_def)

section \<open>Successful calls of addBook\<close>

lemma addBook_success:
  assumes "Mutation_addBook D ids ctx args w = (Inr pb, w')"
  obtains a isNew s1 s2 out where
    "addBook_author ids args (store w) = (a, isNew)"
    "Book_save D (store w) (addBook_book ids args a) = Inr s1"
    "Author_save D s1 a isNew (\<lambda>d. d\<lparr>author_books := author_books a\<rparr>) = Inr s2"
    "pb = populate s2 (addBook_book ids args a)"
    "w' = w\<lparr>store := s2, subscribers := publish pb (subscribers w), console := out\<rparr>"
  using assms unfolding Mutation_addBook_def Let_def
  by (auto split: option.splits prod.splits sum.splits)

lemma Book_save_Inr:
  assumes "Book_save D s b = Inr s1"
  shows "s1 = s\<lparr>Book_docs := Book_docs s @ [b]\<rparr>" and "book_id b \<notin> set (map book_id (Book_docs s))"
  using assms unfolding Book_save_def by (auto split: option.splits if_splits)

lemma Author_save_Inr:
  assumes "Author_save D s a isNew f = Inr s2"
  shows "Book_docs s2 = Book_docs s"
    and "isNew \<Longrightarrow> Author_docs s2 = Author_docs s @ [a] \<and> author_id a \<notin> set (map author_id (Author_docs s))"
    and "\<not> isNew \<Longrightarrow> Author_docs s2 = updateOne (author_id a) f (Author_docs s) \<and>
           author_id a \<in> set (map author_id (Author_docs s))"
  using assms unfolding Author_save_def by (auto split: option.splits if_splits)

lemma addBook_author_cases:
  assumes "addBook_author ids args s = (a, isNew)"
  shows "author_name a = author args"
    and "isNew \<Longrightarrow> Author_findOne s (author args) = None \<and> author_books a = [new_book_oid ids]
           \<and> author_id a = new_author_oid ids"
    and "\<not> isNew \<Longrightarrow> \<exists>a0. Author_findOne s (author args) = Some a0 \<and> a0 \<in> set (Author_docs s) \<and>
           a = a0\<lparr>author_books := author_books a0 @ [new_book_oid ids]\<rparr>"
proof -
  show "author_name a = author args"
  proof (cases "Author_findOne s (author args)")
    case None
    with assms show ?thesis by (auto simp: addBook_author_def Let_def)
  next
    case (Some a0)
    then have "author_name a0 = author args"
      unfolding Author_findOne_def by (auto dest: find_Some_mem)
    with Some assms show ?thesis by (auto simp: addBook_author_def Let_def)
  qed
  show "isNew \<Longrightarrow> Author_findOne s (author args) = None \<and> author_books a = [new_book_oid ids]
           \<and> author_id a = new_author_oid ids"
    using assms by (auto simp: addBook_author_def Let_def)
  show "\<not> isNew \<Longrightarrow> \<exists>a0. Author_findOne s (author args) = Some a0 \<and> a0 \<in> set (Author_docs s) \<and>
           a = a0\<lparr>author_books := author_books a0 @ [new_book_oid ids]\<rparr>"
  proof -
    assume "\<not> isNew"
    with assms obtain a0 where a0: "Author_findOne s (author args) = Some a0"
      by (auto simp: addBook_author_def Let_def)
    then have "a0 \<in> set (Author_docs s)"
      unfolding Author_findOne_def by (auto dest: find_Some_mem)
    with a0 assms show ?thesis by (auto simp: addBook_author_def Let_def)
  qed
qed

lemma addBook_stored:
  assumes ok: "Mutation_addBook D ids ctx args w = (Inr pb, w')"
    and uniq: "distinct (map author_id (Author_docs (store w)))"
  shows "\<exists>a. author_doc pb = Some a \<and>
             Author_findOne (store w') (author args) = Some a \<and>
             author_id a = book_author (doc pb) \<and>
             author_books a =
               (case Author_findOne (store w) (author args) of
                  None \<Rightarrow> [] | Some a0 \<Rightarrow> author_books a0) @ [book_id (doc pb)]"
proof -
  from ok obtain a isNew s1 s2 out where
    au: "addBook_author ids args (store w) = (a, isNew)" and
    bs: "Book_save D (store w) (addBook_book ids args a) = Inr s1" and
    as: "Author_save D s1 a isNew (\<lambda>d. d\<lparr>author_books := author_books a\<rparr>) = Inr s2" and
    pb: "pb = populate s2 (addBook_book ids args a)" and
    w': "w' = w\<lparr>store := s2, subscribers := publish pb (subscribers w), console := out\<rparr>"
    by (rule addBook_success)
  have s1: "Author_docs s1 = Author_docs (store w)"
    using Book_save_Inr(1) [OF bs] by simp
  have st: "store w' = s2" using w' by simp
  have dc: "doc pb = addBook_book ids args a" using pb by (simp add: populate_def)
  have ad: "author_doc pb = Author_findById s2 (author_id a)"
    using pb by (simp add: populate_def addBook_book_def)
  have bi: "book_id (doc pb) = new_book_oid ids" "book_author (doc pb) = author_id a"
    using dc by (simp_all add: addBook_book_def)
  show ?thesis
  proof (cases isNew)
    case True
    from addBook_author_cases(2) [OF au True]
    have none: "Author_findOne (store w) (author args) = None"
      and bk: "author_books a = [new_book_oid ids]" by simp_all
    from Author_save_Inr(2) [OF as True] s1
    have docs: "Author_docs s2 = Author_docs (store w) @ [a]"
      and fresh: "author_id a \<notin> set (map author_id (Author_docs (store w)))" by simp_all
    have "\<forall>x\<in>set (Author_docs (store w)). author_id x \<noteq> author_id a"
      using fresh by (metis imageI list.set_map)
    then have "find (\<lambda>x. author_id x = author_id a) (Author_docs (store w)) = None"
      by (simp add: find_None_all)
    then have 1: "Author_findById s2 (author_id a) = Some a"
      by (simp add: Author_findById_def docs find_append_cases)
    have "find (\<lambda>x. author_name x = author args) (Author_docs (store w)) = None"
      using none by (simp add: Author_findOne_def)
    then have 2: "Author_findOne s2 (author args) = Some a"
      using addBook_author_cases(1) [OF au]
      by (simp add: Author_findOne_def docs find_append_cases)
    from 1 2 ad st bi bk none show ?thesis by simp
  next
    case False
    from addBook_author_cases(3) [OF au False] obtain a0 where
      f0: "Author_findOne (store w) (author args) = Some a0" and
      m0: "a0 \<in> set (Author_docs (store w))" and
      a: "a = a0\<lparr>author_books := author_books a0 @ [new_book_oid ids]\<rparr>" by blast
    let ?f = "\<lambda>d. d\<lparr>author_books := author_books a\<rparr>"
    have fa: "?f a0 = a" using a by simp
    have id: "author_id a = author_id a0" using a by simp
    from Author_save_Inr(3) [OF as False] s1 id
    have docs: "Author_docs s2 = updateOne (author_id a0) ?f (Author_docs (store w))" by simp
    have 1: "Author_findById s2 (author_id a) = Some a"
      using find_id_updateOne [OF m0 uniq, of ?f] fa id
      by (simp add: Author_findById_def docs)
    have "find (\<lambda>x. author_name x = author args) (Author_docs (store w)) = Some a0"
      using f0 by (simp add: Author_findOne_def)
    from find_name_updateOne [OF this uniq, of ?f] fa
    have 2: "Author_findOne s2 (author args) = Some a"
      by (simp add: Author_findOne_def docs)
    from 1 2 ad st bi f0 a show ?thesis by simp
  qed
qed

lemma addBook_books:
  assumes ok: "Mutation_addBook D ids ctx args w = (Inr pb, w')"
  shows "Book_docs (store w') = Book_docs (store w) @ [doc pb]"
    and "pb = populate (store w') (doc pb)"
    and "book_title (doc pb) = title args \<and> book_published (doc pb) = published args \<and>
         book_genres (doc pb) = genres args"
    and "subscribers w' = publish pb (subscribers w)"
proof -
  from ok obtain a isNew s1 s2 out where
    au: "addBook_author ids args (store w) = (a, isNew)" and
    bs: "Book_save D (store w) (addBook_book ids args a) = Inr s1" and
    as: "Author_save D s1 a isNew (\<lambda>d. d\<lparr>author_books := author_books a\<rparr>) = Inr s2" and
    pb: "pb = populate s2 (addBook_book ids args a)" and
    w': "w' = w\<lparr>store := s2, subscribers := publish pb (subscribers w), console := out\<rparr>"
    by (rule addBook_success)
  have dc: "doc pb = addBook_book ids args a" using pb by (simp add: populate_def)
  show "Book_docs (store w') = Book_docs (store w) @ [doc pb]"
    using Book_save_Inr(1) [OF bs] Author_save_Inr(1) [OF as] w' dc by simp
  show "pb = populate (store w') (doc pb)" using pb dc w' by simp
  show "book_title (doc pb) = title args \<and> book_published (doc pb) = published args \<and>
         book_genres (doc pb) = genres args"
    using dc by (simp add: addBook_book_def)
  show "subscribers w' = publish pb (subscribers w)" using w' by simp
qed

text \<open>
  Claim C7. Let a call of \<^verbatim>\<open>addBook\<close> succeed on a store whose identifiers are unique,
  returning the populated Book \<open>pb\<close>. Then \<^verbatim>\<open>allBooks\<close> without arguments on the new
  store returns a list that contains \<open>pb\<close>; \<open>pb\<close> has the title, year and genres of the
  arguments; its author is resolved to the Author document that \<^verbatim>\<open>findOne\<close> now
  returns for the name given, whose identifier is the Book's reference; and
  \<^verbatim>\<open>Author.bookCount\<close> of that document is one more than that of the Author the name
  gave before the call, counting zero when there was none before.
\<close>

theorem addBook_then_allBooks:
  assumes "Mutation_addBook D ids ctx args w = (Inr pb, w')"
    and "unique_ids (store w)"
  shows "(\<exists>bs. Query_allBooks (store w') \<lparr>author_arg = None, genre_arg = None\<rparr> = Inr bs \<and>
               pb \<in> set bs) \<and>
         book_title (doc pb) = title args \<and> book_published (doc pb) = published args \<and>
         book_genres (doc pb) = genres args \<and>
         (\<exists>a. author_doc pb = Some a \<and>
              Author_findOne (store w') (author args) = Some a \<and>
              author_id a = book_author (doc pb) \<and>
              Author_bookCount a =
                (case Author_findOne (store w) (author args) of
                   None \<Rightarrow> 0 | Some a0 \<Rightarrow> Author_bookCount a0) + 1)"
proof -
  have "Query_allBooks (store w') \<lparr>author_arg = None, genre_arg = None\<rparr> =
          Inr (map (populate (store w')) (Book_docs (store w')))"
    by (simp add: Query_allBooks_def truthy_def Book_find_def)
  moreover have "pb \<in> set (map (populate (store w')) (Book_docs (store w')))"
    using addBook_books(1,2) [OF assms(1)] by (metis in_set_conv_decomp list.set_map image_eqI)
  ultimately have 1: "\<exists>bs. Query_allBooks (store w') \<lparr>author_arg = None, genre_arg = None\<rparr> = Inr bs \<and>
               pb \<in> set bs" by blast
  from assms(2) have "distinct (map author_id (Author_docs (store w)))"
    by (simp add: unique_ids_def)
  from addBook_stored [OF assms(1) this] obtain a where
    a: "author_doc pb = Some a" "Author_findOne (store w') (author args) = Some a"
       "author_id a = book_author (doc pb)"
       "author_books a =
               (case Author_findOne (store w) (author args) of
                  None \<Rightarrow> [] | Some a0 \<Rightarrow> author_books a0) @ [book_id (doc pb)]" by blast
  from a(4) have "Author_bookCount a =
                (case Author_findOne (store w) (author args) of
                   None \<Rightarrow> 0 | Some a0 \<Rightarrow> Author_bookCount a0) + 1"
    by (simp add: Author_bookCount_def split: option.splits)
  with 1 a(1,2,3) addBook_books(3) [OF assms(1)] show ?thesis by simp
qed

theorem addBook_then_allBooks_witness:
  "Mutation_addBook example_deps example_oids \<lparr>currentUser = Some example_user\<rparr>
      (example_args\<lparr>author := ''Martin Fowler''\<rparr>) example_server =
     (Inr \<lparr>doc = \<lparr>book_id = 11, book_title = ''Refactoring to patterns'', book_published = 2008,
                  book_genres = [''refactoring'', ''patterns''], book_author = 1\<rparr>,
           author_doc = Some (example_author\<lparr>author_books := [10, 11]\<rparr>)\<rparr>,
      \<lparr>store = \<lparr>Book_docs = [example_book,
                   \<lparr>book_id = 11, book_title = ''Refactoring to patterns'', book_published = 2008,
                    book_genres = [''refactoring'', ''patterns''], book_author = 1\<rparr>],
                 Author_docs = [example_author\<lparr>author_books := [10, 11]\<rparr>],
                 User_docs = [example_user]\<rparr>,
       subscribers = [[\<lparr>doc = \<lparr>book_id = 11, book_title = ''Refactoring to patterns'',
                          book_published = 2008,
                          book_genres = [''refactoring'', ''patterns''], book_author = 1\<rparr>,
                        author_doc = Some (example_author\<lparr>author_books := [10, 11]\<rparr>)\<rparr>]],
       iterators = [Some 0],
       console = [None, None]\<rparr>) \<and>
   unique_ids (store example_server) \<and>
   Author_bookCount example_author = 1 \<and>
   Author_bookCount (example_author\<lparr>author_books := [10, 11]\<rparr>) = 2"
proof -
  have 1: "Mutation_addBook example_deps example_oids \<lparr>currentUser = Some example_user\<rparr>
      (example_args\<lparr>author := ''Martin Fowler''\<rparr>) example_server =
     (Inr \<lparr>doc = \<lparr>book_id = 11, book_title = ''Refactoring to patterns'', book_published = 2008,
                  book_genres = [''refactoring'', ''patterns''], book_author = 1\<rparr>,
           author_doc = Some (example_author\<lparr>author_books := [10, 11]\<rparr>)\<rparr>,
      \<lparr>store = \<lparr>Book_docs = [example_book,
                   \<lparr>book_id = 11, book_title = ''Refactoring to patterns'', book_published = 2008,
                    book_genres = [''refactoring'', ''patterns''], book_author = 1\<rparr>],
                 Author_docs = [example_author\<lparr>author_books := [10, 11]\<rparr>],
                 User_docs = [example_user]\<rparr>,
       subscribers = [[\<lparr>doc = \<lparr>book_id = 11, book_title = ''Refactoring to patterns'',
                          book_published = 2008,
                          book_genres = [''refactoring'', ''patterns''], book_author = 1\<rparr>,
                        author_doc = Some (example_author\<lparr>author_books := [10, 11]\<rparr>)\<rparr>]],
       iterators = [Some 0],
       console = [None, None]\<rparr>)"
    by (simp add: Mutation_addBook_def Let_def addBook_author_def addBook_book_def Author_findOne_def
        Author_findById_def Book_save_def Author_save_def populate_def publish_def
        example_server_def example_db_def example_author_def example_book_def
        example_args_def example_oids_def example_deps_def)
  have 2: "unique_ids (store example_server)"
    by (simp add: unique_ids_def example_server_def example_db_def)
  from addBook_then_allBooks [OF 1 2] 1 2 show ?thesis
    by (simp add: Author_bookCount_def example_author_def)
qed

section \<open>Unique identifiers are kept\<close>







section \<open>Delivery to subscribers\<close>










subsection \<open>Positions in a run\<close>





subsection \<open>What a delivered Book is\<close>










section \<open>Requests without a verified user\<close>

text \<open>
  Claim C9. Let a request carry an authorization header for which \<^verbatim>\<open>jwt.verify\<close>
  throws on what follows the first seven characters, or returns a token whose identifier
  no stored User has. Then the \<^verbatim>\<open>context\<close> function returns normally: for a bearer
  header it returns a context whose current user is \<^verbatim>\<open>null\<close>, and in every case the
  resolvers see no current user. The authentication error comes from the resolvers that
  ask for one: \<^verbatim>\<open>me\<close>, \<^verbatim>\<open>addBook\<close> and \<^verbatim>\<open>editAuthor\<close> throw it, the two
  mutations without changing the state.
\<close>

theorem context_without_user:
  assumes "authorization r = Some h"
    and "(\<exists>m. jwt_verify D (drop 7 h) (JWT_SECRET D) = Inl m) \<or>
         (\<exists>d. jwt_verify D (drop 7 h) (JWT_SECRET D) = Inr d \<and>
              (\<forall>u\<in>set (User_docs s). user_id u \<noteq> tok_id d))"
    and "ctx = resolver_context (context_fn D s (Some r))"
  shows "(startsWith (toLowerCase h) ''bearer '' \<longrightarrow>
            context_fn D s (Some r) = Some \<lparr>currentUser = None\<rparr>) \<and>
         currentUser ctx = None \<and>
         Query_me ctx = Inl (AuthenticationError ''not authenticated'') \<and>
         Mutation_addBook D ids ctx a1 w = (Inl (AuthenticationError ''not authenticated''), w) \<and>
         Mutation_editAuthor D ctx a2 w = (Inl (AuthenticationError ''not authenticated''), w)"
proof -
  have v: "(case verify_and_find D s h of Inl e \<Rightarrow> None | Inr cu \<Rightarrow> cu) = None"
    using assms(2)
    by (auto simp: verify_and_find_def User_findById_def find_None_all)
  have c: "context_fn D s (Some r) =
             (if truthy (Some h) \<and> startsWith (toLowerCase h) ''bearer ''
              then Some \<lparr>currentUser = None\<rparr> else None)"
    using assms(1) v by (simp add: context_fn_def Let_def)
  have b: "startsWith (toLowerCase h) ''bearer '' \<Longrightarrow> truthy (Some h)"
    by (auto simp: truthy_def startsWith_def toLowerCase_def)
  from c have n: "currentUser ctx = None"
    unfolding assms(3) by (simp add: resolver_context_def)
  from b c have "startsWith (toLowerCase h) ''bearer '' \<longrightarrow>
            context_fn D s (Some r) = Some \<lparr>currentUser = None\<rparr>" by simp
  with n show ?thesis
    by (simp add: Query_me_def Mutation_addBook_def Mutation_editAuthor_def)
qed

theorem context_without_user_witness:
  "context_fn example_deps example_db (Some \<lparr>authorization = Some ''Bearer key.tesx''\<rparr>) =
     Some \<lparr>currentUser = None\<rparr> \<and>
   context_fn example_deps (example_db\<lparr>User_docs := []\<rparr>)
       (Some \<lparr>authorization = Some ''bearer key.test''\<rparr>) = Some \<lparr>currentUser = None\<rparr> \<and>
   Query_me (resolver_context (context_fn example_deps example_db
       (Some \<lparr>authorization = Some ''Bearer key.tesx''\<rparr>))) =
     Inl (AuthenticationError ''not authenticated'') \<and>
   Mutation_addBook example_deps example_oids
       (resolver_context (context_fn example_deps example_db
          (Some \<lparr>authorization = Some ''Bearer key.tesx''\<rparr>))) example_args example_server =
     (Inl (AuthenticationError ''not authenticated''), example_server)"
proof -
  have 1: "authorization \<lparr>authorization = Some ''Bearer key.tesx''\<rparr> = Some ''Bearer key.tesx''"
    by simp
  have 2: "(\<exists>m. jwt_verify example_deps (drop 7 ''Bearer key.tesx'') (JWT_SECRET example_deps) = Inl m) \<or>
         (\<exists>d. jwt_verify example_deps (drop 7 ''Bearer key.tesx'') (JWT_SECRET example_deps) = Inr d \<and>
              (\<forall>u\<in>set (User_docs example_db). user_id u \<noteq> tok_id d))"
    by (simp add: example_deps_def)
  have 3: "authorization \<lparr>authorization = Some ''bearer key.test''\<rparr> = Some ''bearer key.test''"
    by simp
  have 4: "(\<exists>m. jwt_verify example_deps (drop 7 ''bearer key.test'') (JWT_SECRET example_deps) = Inl m) \<or>
         (\<exists>d. jwt_verify example_deps (drop 7 ''bearer key.test'') (JWT_SECRET example_deps) = Inr d \<and>
              (\<forall>u\<in>set (User_docs (example_db\<lparr>User_docs := []\<rparr>)). user_id u \<noteq> tok_id d))"
    by (simp add: example_deps_def)
  have 5: "startsWith (toLowerCase ''Bearer key.tesx'') ''bearer ''"
    "startsWith (toLowerCase ''bearer key.test'') ''bearer ''"
    by code_simp+
  note a = context_without_user [OF 1 2 refl, of example_oids example_args example_server
      "\<lparr>name = ''Martin Fowler'', setBornTo = 1963\<rparr>"]
  note b = context_without_user [OF 3 4 refl, of example_oids example_args example_server
      "\<lparr>name = ''Martin Fowler'', setBornTo = 1963\<rparr>"]
  from a b 5 show ?thesis by blast
qed

end
